theory Spec2Isabelle
  imports Complex_Main "HOL-Library.Sublist" "HOL-Library.Multiset"
    "HOL-Library.Char_ord" "HOL-Library.List_Lexorder"
begin

section \<open>Numbers\<close>

text \<open>
  A TypeScript \<open>number\<close> is modelled as an exact rational. The arithmetic of the program
  (sums of price times quantity, the 8 percent tax, the 9.99 shipping fee, comparisons) is
  read as written; rounding of IEEE doubles, \<open>NaN\<close> and the infinities are outside the model.
\<close>

type_synonym number = rat

section \<open>Client store: types (src/src/store/index.ts)\<close>

datatype condition = Excellent | Good | Fair | Refurbished

fun condition_label :: "condition \<Rightarrow> string" where
  "condition_label Excellent = ''excellent''"
| "condition_label Good = ''good''"
| "condition_label Fair = ''fair''"
| "condition_label Refurbished = ''refurbished''"

text \<open>Interface \<open>Product\<close>. Field names carry the prefix \<open>p_\<close>: \<open>id\<close> and \<open>name\<close> are taken.\<close>

record product =
  p_id :: string
  p_name :: string
  p_description :: string
  p_price :: number
  p_originalPrice :: "number option"
  p_condition :: condition
  p_category :: string
  p_brand :: string
  p_images :: "string list"
  p_specifications :: "(string \<times> string) list"
  p_inStock :: bool
  p_stockCount :: number
  p_rating :: number
  p_reviewCount :: number
  p_featured :: bool
  p_createdAt :: string

text \<open>Interface \<open>CartItem\<close>.\<close>

record cart_item =
  product :: product
  quantity :: number

text \<open>Interface \<open>CartState\<close>: the data held by \<open>useCartStore\<close>.\<close>

record cart_state =
  items :: "cart_item list"
  isOpen :: bool

section \<open>Cart store\<close>

text \<open>
  \<open>addItem(product, quantity = 1)\<close>: the default applies when the argument is absent
  (\<open>None\<close>). \<open>items.find\<close> gives the first entry with the product's id; \<open>set\<close> merges the
  new \<open>items\<close> into the state and leaves \<open>isOpen\<close> as it is.
\<close>

definition addItem :: "product \<Rightarrow> number option \<Rightarrow> cart_state \<Rightarrow> cart_state" where
  "addItem pr qopt s =
     (let qty = (case qopt of None \<Rightarrow> 1 | Some q \<Rightarrow> q);
          its = items s;
          existingItem = find (\<lambda>item. p_id (product item) = p_id pr) its
      in case existingItem of
           Some _ \<Rightarrow>
             s\<lparr>items := map (\<lambda>item. if p_id (product item) = p_id pr
                                     then item\<lparr>quantity := quantity item + qty\<rparr>
                                     else item) its\<rparr>
         | None \<Rightarrow> s\<lparr>items := its @ [\<lparr>product = pr, quantity = qty\<rparr>]\<rparr>)"

definition removeItem :: "string \<Rightarrow> cart_state \<Rightarrow> cart_state" where
  "removeItem productId s =
     s\<lparr>items := filter (\<lambda>item. p_id (product item) \<noteq> productId) (items s)\<rparr>"

definition updateQuantity :: "string \<Rightarrow> number \<Rightarrow> cart_state \<Rightarrow> cart_state" where
  "updateQuantity productId qty s =
     (if qty \<le> 0 then removeItem productId s
      else s\<lparr>items := map (\<lambda>item. if p_id (product item) = productId
                                   then item\<lparr>quantity := qty\<rparr>
                                   else item) (items s)\<rparr>)"

definition clearCart :: "cart_state \<Rightarrow> cart_state" where
  "clearCart s = s\<lparr>items := []\<rparr>"

definition toggleCart :: "cart_state \<Rightarrow> cart_state" where
  "toggleCart s = s\<lparr>isOpen := \<not> isOpen s\<rparr>"



text \<open>The ids of the products in the cart, in cart order.\<close>

definition cart_ids :: "cart_state \<Rightarrow> string list" where
  "cart_ids s = map (\<lambda>item. p_id (product item)) (items s)"

text \<open>A sample product and cart for concrete evaluation.\<close>

definition phone :: product where
  "phone = \<lparr>p_id = ''p1'', p_name = ''Phone'', p_description = ''A used phone'',
     p_price = 120, p_originalPrice = None, p_condition = Good, p_category = ''phones'',
     p_brand = ''Acme'', p_images = [], p_specifications = [], p_inStock = True,
     p_stockCount = 3, p_rating = 4, p_reviewCount = 10, p_featured = False,
     p_createdAt = ''2024-01-02''\<rparr>"

definition cable :: product where
  "cable = phone\<lparr>p_id := ''p2'', p_name := ''cable'', p_description := ''USB lead'',
     p_price := 5/2, p_condition := Excellent, p_category := ''accessories'',
     p_brand := ''Bolt'', p_inStock := False, p_rating := 5, p_createdAt := ''2024-03-01''\<rparr>"

definition cart2 :: cart_state where
  "cart2 = \<lparr>items = [\<lparr>product = phone, quantity = 1\<rparr>, \<lparr>product = cable, quantity = 4\<rparr>],
     isOpen = False\<rparr>"

section \<open>Product store\<close>

text \<open>Interface \<open>Category\<close>.\<close>

record category =
  c_id :: string
  c_name :: string
  c_slug :: string
  c_description :: string
  c_image :: string
  c_productCount :: number

text \<open>\<open>ProductState['filters']\<close> and \<open>ProductState['sortBy']\<close>.\<close>

record filters =
  f_category :: string
  f_priceRange :: "number \<times> number"
  f_condition :: "string list"
  f_brand :: "string list"
  f_inStock :: bool

datatype sort_by = Name | PriceLow | PriceHigh | Rating | Newest

text \<open>
  Arrays of products are mutable objects: \<open>sort\<close> reorders its receiver in place. They live
  in a heap, a list of array contents addressed by position, and the store holds a
  reference to its \<open>products\<close> array. Allocation appends a cell.
\<close>

type_synonym ref = nat
type_synonym heap = "product list list"

record product_state =
  products :: ref
  categories :: "category list"
  filters :: filters
  sortBy :: sort_by
  searchQuery :: string

text \<open>
  What the JavaScript runtime supplies: \<open>String.prototype.localeCompare\<close> (the host's
  collation) and \<open>new Date(s).getTime()\<close>, which is \<open>NaN\<close> (\<open>None\<close>) for a string that is
  not a date.
\<close>

record js_runtime =
  localeCompare :: "string \<Rightarrow> string \<Rightarrow> number"
  Date_getTime :: "string \<Rightarrow> number option"

text \<open>\<open>toLowerCase\<close> on the ASCII letters; other characters are left as they are.\<close>

definition lower_char :: "char \<Rightarrow> char" where
  "lower_char c =
     (case map_of (zip ''ABCDEFGHIJKLMNOPQRSTUVWXYZ'' ''abcdefghijklmnopqrstuvwxyz'') c of
        Some l \<Rightarrow> l
      | None \<Rightarrow> c)"

definition toLowerCase :: "string \<Rightarrow> string" where
  "toLowerCase s = map lower_char s"

text \<open>\<open>hay.includes(needle)\<close>: the needle occurs at some position of the hay.\<close>

fun str_includes :: "string \<Rightarrow> string \<Rightarrow> bool" where
  "str_includes [] needle = (needle = [])"
| "str_includes (c # cs) needle = (prefix needle (c # cs) \<or> str_includes cs needle)"

text \<open>
  \<open>Array.prototype.sort(cmp)\<close> is stable and orders \<open>a\<close> before \<open>b\<close> when \<open>cmp(a, b) < 0\<close>.
  For a consistent comparator the result is fixed by the language: the stable sorted
  arrangement, which this insertion sort computes. (For an inconsistent comparator the
  language leaves the order to the implementation.)
\<close>

fun insert_by :: "('a \<Rightarrow> 'a \<Rightarrow> number) \<Rightarrow> 'a \<Rightarrow> 'a list \<Rightarrow> 'a list" where
  "insert_by cmp x [] = [x]"
| "insert_by cmp x (y # ys) = (if cmp x y \<le> 0 then x # y # ys else y # insert_by cmp x ys)"

definition jsSort :: "('a \<Rightarrow> 'a \<Rightarrow> number) \<Rightarrow> 'a list \<Rightarrow> 'a list" where
  "jsSort cmp xs = foldr (insert_by cmp) xs []"

text \<open>Array operations on the heap. A statement works on the pair of the variable
  \<open>filtered\<close> (a reference) and the heap.\<close>

definition spread :: "ref \<Rightarrow> heap \<Rightarrow> ref \<times> heap" where
  "spread r h = (length h, h @ [h ! r])"

definition array_filter :: "(product \<Rightarrow> bool) \<Rightarrow> ref \<times> heap \<Rightarrow> ref \<times> heap" where
  "array_filter P rh = (case rh of (r, h) \<Rightarrow> (length h, h @ [filter P (h ! r)]))"

definition array_sort :: "(product \<Rightarrow> product \<Rightarrow> number) \<Rightarrow> ref \<times> heap \<Rightarrow> ref \<times> heap" where
  "array_sort cmp rh = (case rh of (r, h) \<Rightarrow> (r, h[r := jsSort cmp (h ! r)]))"

text \<open>\<open>if (c) { x = f(x) }\<close>.\<close>

definition applyIf :: "bool \<Rightarrow> ('a \<Rightarrow> 'a) \<Rightarrow> 'a \<Rightarrow> 'a" where
  "applyIf c f x = (if c then f x else x)"

text \<open>The comparator of the \<open>newest\<close> case; a \<open>NaN\<close> result counts as 0 in \<open>sort\<close>.\<close>

definition newest_cmp :: "js_runtime \<Rightarrow> product \<Rightarrow> product \<Rightarrow> number" where
  "newest_cmp rt a b =
     (case (Date_getTime rt (p_createdAt b), Date_getTime rt (p_createdAt a)) of
        (Some tb, Some ta) \<Rightarrow> tb - ta
      | _ \<Rightarrow> 0)"

text \<open>
  \<open>getFilteredProducts\<close>. It reads the store with \<open>get()\<close> and never calls \<open>set\<close>; the
  result is the reference held by \<open>filtered\<close>, returned with the store and the heap.
\<close>

definition getFilteredProducts ::
    "js_runtime \<Rightarrow> product_state \<Rightarrow> heap \<Rightarrow> ref \<times> product_state \<times> heap" where
  "getFilteredProducts rt s h0 =
     (let fs = filters s;
          q = searchQuery s;
          filtered = spread (products s) h0;
          filtered = applyIf (q \<noteq> [])
            (array_filter (\<lambda>p. str_includes (toLowerCase (p_name p)) (toLowerCase q)
                             \<or> str_includes (toLowerCase (p_description p)) (toLowerCase q)
                             \<or> str_includes (toLowerCase (p_brand p)) (toLowerCase q))) filtered;
          filtered = applyIf (f_category fs \<noteq> [])
            (array_filter (\<lambda>p. p_category p = f_category fs)) filtered;
          filtered = array_filter (\<lambda>p. fst (f_priceRange fs) \<le> p_price p
                                      \<and> p_price p \<le> snd (f_priceRange fs)) filtered;
          filtered = applyIf (length (f_condition fs) > 0)
            (array_filter (\<lambda>p. condition_label (p_condition p) \<in> set (f_condition fs))) filtered;
          filtered = applyIf (length (f_brand fs) > 0)
            (array_filter (\<lambda>p. p_brand p \<in> set (f_brand fs))) filtered;
          filtered = applyIf (f_inStock fs) (array_filter p_inStock) filtered;
          filtered = (case sortBy s of
              Name \<Rightarrow> array_sort (\<lambda>a b. localeCompare rt (p_name a) (p_name b)) filtered
            | PriceLow \<Rightarrow> array_sort (\<lambda>a b. p_price a - p_price b) filtered
            | PriceHigh \<Rightarrow> array_sort (\<lambda>a b. p_price b - p_price a) filtered
            | Rating \<Rightarrow> array_sort (\<lambda>a b. p_rating b - p_rating a) filtered
            | Newest \<Rightarrow> array_sort (newest_cmp rt) filtered)
      in (fst filtered, s, snd filtered))"

text \<open>
  The filters in the words of the specification: a product passes when it meets every
  active filter. "Contains" is the contiguous-sublist relation of the library.
\<close>

definition contains_ci :: "string \<Rightarrow> string \<Rightarrow> bool" where
  "contains_ci hay q = sublist (toLowerCase q) (toLowerCase hay)"

definition passes :: "product_state \<Rightarrow> product \<Rightarrow> bool" where
  "passes s p \<longleftrightarrow>
     (searchQuery s = [] \<or> contains_ci (p_name p) (searchQuery s)
        \<or> contains_ci (p_description p) (searchQuery s)
        \<or> contains_ci (p_brand p) (searchQuery s))
     \<and> (f_category (filters s) = [] \<or> p_category p = f_category (filters s))
     \<and> fst (f_priceRange (filters s)) \<le> p_price p
     \<and> p_price p \<le> snd (f_priceRange (filters s))
     \<and> (f_condition (filters s) = []
          \<or> condition_label (p_condition p) \<in> set (f_condition (filters s)))
     \<and> (f_brand (filters s) = [] \<or> p_brand p \<in> set (f_brand (filters s)))
     \<and> (f_inStock (filters s) = False \<or> p_inStock p)"



text \<open>
  Auxiliary notions for the proofs. \<open>array_at h0 xs (r, h)\<close>: the heap \<open>h\<close> extends \<open>h0\<close>
  without changing it, and \<open>r\<close> is a cell allocated after \<open>h0\<close> that holds \<open>xs\<close>.
  \<open>comparator\<close> names the comparison function of each sort key.
\<close>

definition array_at :: "heap \<Rightarrow> product list \<Rightarrow> ref \<times> heap \<Rightarrow> bool" where
  "array_at h0 xs rh \<longleftrightarrow>
     length h0 \<le> fst rh \<and> fst rh < length (snd rh) \<and> snd rh ! fst rh = xs
     \<and> take (length h0) (snd rh) = h0"

fun comparator :: "js_runtime \<Rightarrow> sort_by \<Rightarrow> product \<Rightarrow> product \<Rightarrow> number" where
  "comparator rt Name = (\<lambda>a b. localeCompare rt (p_name a) (p_name b))"
| "comparator rt PriceLow = (\<lambda>a b. p_price a - p_price b)"
| "comparator rt PriceHigh = (\<lambda>a b. p_price b - p_price a)"
| "comparator rt Rating = (\<lambda>a b. p_rating b - p_rating a)"
| "comparator rt Newest = newest_cmp rt"

text \<open>
  A sample runtime and store for concrete evaluation: strings compared in dictionary
  order of their characters, two known dates, and a store whose array holds the phone
  before the cable, searched for \<open>US\<close> and sorted by ascending price.
\<close>

definition sample_rt :: js_runtime where
  "sample_rt = \<lparr>localeCompare = (\<lambda>a b. if a < b then -1 else if a = b then 0 else 1),
     Date_getTime = map_of [(''2024-01-02'', 1704153600000), (''2024-03-01'', 1709251200000)]\<rparr>"

definition sample_heap :: heap where
  "sample_heap = [[phone, cable]]"

definition sample_store :: product_state where
  "sample_store = \<lparr>products = 0, categories = [],
     filters = \<lparr>f_category = [], f_priceRange = (0, 5000), f_condition = [], f_brand = [],
       f_inStock = False\<rparr>,
     sortBy = PriceLow, searchQuery = ''US''\<rparr>"

section \<open>Backend: documents, requests and responses\<close>

text \<open>
  The Mongoose models (\<open>models/Order\<close>, \<open>models/Product\<close>) and the \<open>auth\<close> middleware are
  not part of the sources at hand. The routes are modelled from their own code, behind
  the middleware: a request carries the id of its authenticated user. The collections
  are maps from document id to document; \<open>findById\<close> is the lookup, \<open>create\<close>, \<open>save\<close> and
  \<open>findByIdAndUpdate\<close> store the document. An exception thrown inside Mongoose
  (connection, cast or schema errors) is outside the model; the catch-all 500 answer
  appears where the model has a failing call, the retrieval from Stripe.
  A \<open>Date\<close> is the instant it denotes, a number.
\<close>

type_synonym date = number

record shipping_address =
  firstName :: string
  lastName :: string
  email :: string
  address :: string
  city :: string
  zipCode :: string

text \<open>The fields of a product document that the routes read or write.\<close>

record product_doc =
  d_name :: string
  d_price :: number
  d_isActive :: bool
  d_stockCount :: number
  d_images :: "string list"

text \<open>\<open>orderItem\<close> of the order route.\<close>

record order_line =
  l_product :: string
  l_name :: string
  l_price :: number
  l_quantity :: number
  l_image :: "string option"

record payment_result =
  pr_id :: string
  pr_status :: string
  pr_updateTime :: date
  pr_emailAddress :: string

record order_doc =
  o_user :: string
  o_items :: "order_line list"
  o_shippingAddress :: shipping_address
  o_paymentMethod :: string
  o_itemsPrice :: number
  o_taxPrice :: number
  o_shippingPrice :: number
  o_totalPrice :: number
  o_isPaid :: bool
  o_paidAt :: "date option"
  o_paymentResult :: "payment_result option"
  o_status :: string
  o_trackingNumber :: "string option"
  o_isDelivered :: bool
  o_deliveredAt :: "date option"

record db =
  Products :: "string \<rightharpoonup> product_doc"
  Orders :: "string \<rightharpoonup> order_doc"

text \<open>A JSON answer: \<open>res.status(n).json({success, message, errors, data: {order}})\<close>.\<close>

record response =
  r_status :: nat
  r_success :: bool
  r_message :: string
  r_errors :: "string list"
  r_order :: "order_doc option"

definition failure :: "nat \<Rightarrow> string \<Rightarrow> response" where
  "failure n msg = \<lparr>r_status = n, r_success = False, r_message = msg, r_errors = [],
     r_order = None\<rparr>"

definition validation_failed :: "string list \<Rightarrow> response" where
  "validation_failed errors = \<lparr>r_status = 400, r_success = False,
     r_message = ''Validation failed'', r_errors = errors, r_order = None\<rparr>"

definition ok :: "nat \<Rightarrow> string \<Rightarrow> order_doc \<Rightarrow> response" where
  "ok n msg order = \<lparr>r_status = n, r_success = True, r_message = msg, r_errors = [],
     r_order = Some order\<rparr>"



definition check :: "bool \<Rightarrow> string \<Rightarrow> string list" where
  "check valid msg = (if valid then [] else [msg])"



section \<open>Backend: POST /api/orders (src/backend/src/routes/orders.ts)\<close>











section \<open>Backend: PUT /api/orders/:id/status\<close>

record status_request =
  s_id :: string
  s_status :: string
  s_trackingNumber :: "string option"

definition status_labels :: "string list" where
  "status_labels = [''pending'', ''processing'', ''shipped'', ''delivered'', ''cancelled'']"

text \<open>An absent \<open>status\<close> validates as the empty string. \<open>if (trackingNumber)\<close> holds for a
  non-empty string. \<open>now\<close> is the clock reading of \<open>new Date()\<close>.\<close>

definition put_order_status :: "date \<Rightarrow> status_request \<Rightarrow> db \<Rightarrow> response \<times> db" where
  "put_order_status now req d =
     (let errors = check (s_status req \<in> set status_labels) ''Invalid status'' in
      if errors \<noteq> [] then (validation_failed errors, d)
      else
        let status = s_status req; trackingNumber = s_trackingNumber req
        in case Orders d (s_id req) of
             None \<Rightarrow> (failure 404 ''Order not found'', d)
           | Some order \<Rightarrow>
               let order = order\<lparr>o_status := status\<rparr>;
                   order = (if trackingNumber \<noteq> None \<and> trackingNumber \<noteq> Some []
                            then order\<lparr>o_trackingNumber := trackingNumber\<rparr> else order);
                   order = (if status = ''delivered''
                            then order\<lparr>o_isDelivered := True, o_deliveredAt := Some now\<rparr>
                            else order)
               in (ok 200 ''Order status updated successfully'' order,
                   d\<lparr>Orders := (Orders d)(s_id req \<mapsto> order)\<rparr>))"

section \<open>Backend: payments (src/backend/src/routes/payments.ts)\<close>









text \<open>Sample documents and requests for concrete evaluation.\<close>

definition sample_address :: shipping_address where
  "sample_address = \<lparr>firstName = '' Ada'', lastName = ''Byron'', email = ''ada@example.org'',
     address = ''1 Main St'', city = ''London'', zipCode = ''N1''\<rparr>"

definition blank_order :: order_doc where
  "blank_order = \<lparr>o_user = [], o_items = [], o_shippingAddress = sample_address,
     o_paymentMethod = [], o_itemsPrice = 0, o_taxPrice = 0, o_shippingPrice = 0,
     o_totalPrice = 0, o_isPaid = False, o_paidAt = None, o_paymentResult = None,
     o_status = ''pending'', o_trackingNumber = None, o_isDelivered = False,
     o_deliveredAt = None\<rparr>"


definition sample_products :: "string \<rightharpoonup> product_doc" where
  "sample_products =
     [''a1'' \<mapsto> \<lparr>d_name = ''Phone'', d_price = 120, d_isActive = True, d_stockCount = 3,
                 d_images = [''phone.png'']\<rparr>,
      ''a2'' \<mapsto> \<lparr>d_name = ''Cable'', d_price = 5 / 2, d_isActive = True, d_stockCount = 10,
                 d_images = []\<rparr>,
      ''a3'' \<mapsto> \<lparr>d_name = ''Pager'', d_price = 9, d_isActive = False, d_stockCount = 1,
                 d_images = []\<rparr>]"







definition sample_order_id :: string where
  "sample_order_id = ''64b7f0c2a1d3e4f5a6b7c8d9''"

definition sample_order :: order_doc where
  "sample_order = blank_order\<lparr>o_user := ''u1'', o_paymentMethod := ''stripe''\<rparr>"

definition order_db :: db where
  "order_db = \<lparr>Products = sample_products, Orders = [sample_order_id \<mapsto> sample_order]\<rparr>"







section \<open>Cart store: proofs\<close>


lemma find_None_ids: "find (\<lambda>item. p_id (product item) = k) xs = None
    \<longleftrightarrow> k \<notin> set (map (\<lambda>item. p_id (product item)) xs)"
  by (induction xs) auto

lemma ids_map_quantity:
  "map (\<lambda>item. p_id (product item)) (map (\<lambda>item. if P item then item\<lparr>quantity := g item\<rparr> else item) xs)
     = map (\<lambda>item. p_id (product item)) xs"
  by (induction xs) auto

lemma cart_ids_addItem:
  "cart_ids (addItem pr qopt s) =
     (if p_id pr \<in> set (cart_ids s) then cart_ids s else cart_ids s @ [p_id pr])"
proof (cases "find (\<lambda>item. p_id (product item) = p_id pr) (items s)")
  case None
  then have "p_id pr \<notin> set (cart_ids s)"
    by (simp add: find_None_ids cart_ids_def)
  with None show ?thesis
    by (simp add: addItem_def cart_ids_def)
next
  case (Some a)
  then have "p_id pr \<in> set (cart_ids s)"
    using find_None_ids [of "p_id pr" "items s"] by (simp add: cart_ids_def)
  with Some show ?thesis
    by (simp add: addItem_def cart_ids_def ids_map_quantity)
qed

lemma cart_ids_removeItem: "cart_ids (removeItem k s) = filter (\<lambda>i. i \<noteq> k) (cart_ids s)"
  by (simp add: removeItem_def cart_ids_def filter_map comp_def)

lemma cart_ids_updateQuantity:
  "cart_ids (updateQuantity k q s) =
     (if q \<le> 0 then filter (\<lambda>i. i \<noteq> k) (cart_ids s) else cart_ids s)"
  by (simp add: updateQuantity_def cart_ids_removeItem)
     (simp add: cart_ids_def ids_map_quantity)



text \<open>
  C9. Every cart operation (\<open>addItem\<close>, \<open>removeItem\<close>, \<open>updateQuantity\<close>, \<open>clearCart\<close>)
  keeps the product ids of the cart's entries pairwise distinct. On a cart with distinct
  ids, \<open>addItem\<close> of a product already in the cart keeps the number of entries, adds the
  given amount to the quantity of the entry with that id and leaves every other entry as
  it is; \<open>addItem\<close> of a product not in the cart appends exactly one entry, the product
  with the given quantity.
\<close>

theorem cart_distinct_ids:
  assumes "distinct (cart_ids s)"
  shows "distinct (cart_ids (addItem pr qopt s))
       \<and> distinct (cart_ids (removeItem k s))
       \<and> distinct (cart_ids (updateQuantity k q s))
       \<and> distinct (cart_ids (clearCart s))
       \<and> (p_id pr \<in> set (cart_ids s) \<longrightarrow>
            length (items (addItem pr qopt s)) = length (items s)
            \<and> (\<forall>i < length (items s).
                  items (addItem pr qopt s) ! i =
                    (if p_id (product (items s ! i)) = p_id pr
                     then (items s ! i)\<lparr>quantity := quantity (items s ! i)
                            + (case qopt of None \<Rightarrow> 1 | Some n \<Rightarrow> n)\<rparr>
                     else items s ! i))
            \<and> length (filter (\<lambda>item. p_id (product item) = p_id pr) (items s)) = 1)
       \<and> (p_id pr \<notin> set (cart_ids s) \<longrightarrow>
            items (addItem pr qopt s) =
              items s @ [\<lparr>product = pr, quantity = (case qopt of None \<Rightarrow> 1 | Some n \<Rightarrow> n)\<rparr>])"
proof -
  have add: "distinct (cart_ids (addItem pr qopt s))"
    using assms by (simp add: cart_ids_addItem)
  have rem: "distinct (cart_ids (removeItem k s))"
    using assms by (simp add: cart_ids_removeItem)
  have upd: "distinct (cart_ids (updateQuantity k q s))"
    using assms by (simp add: cart_ids_updateQuantity)
  have clr: "distinct (cart_ids (clearCart s))"
    by (simp add: clearCart_def cart_ids_def)
  have present: "length (items (addItem pr qopt s)) = length (items s)
            \<and> (\<forall>i < length (items s).
                  items (addItem pr qopt s) ! i =
                    (if p_id (product (items s ! i)) = p_id pr
                     then (items s ! i)\<lparr>quantity := quantity (items s ! i)
                            + (case qopt of None \<Rightarrow> 1 | Some n \<Rightarrow> n)\<rparr>
                     else items s ! i))
            \<and> length (filter (\<lambda>item. p_id (product item) = p_id pr) (items s)) = 1"
    if mem: "p_id pr \<in> set (cart_ids s)"
  proof -
    from mem obtain a where fnd: "find (\<lambda>item. p_id (product item) = p_id pr) (items s) = Some a"
      using find_None_ids [of "p_id pr" "items s"] by (auto simp: cart_ids_def)
    have "length (filter (\<lambda>i. i = p_id pr) (cart_ids s)) = 1"
      using assms mem by (simp add: distinct_length_filter)
    then have one: "length (filter (\<lambda>item. p_id (product item) = p_id pr) (items s)) = 1"
      by (simp add: cart_ids_def filter_map comp_def)
    from fnd one show ?thesis
      by (simp add: addItem_def)
  qed
  have absent: "items (addItem pr qopt s) =
              items s @ [\<lparr>product = pr, quantity = (case qopt of None \<Rightarrow> 1 | Some n \<Rightarrow> n)\<rparr>]"
    if "p_id pr \<notin> set (cart_ids s)"
  proof -
    from that have "find (\<lambda>item. p_id (product item) = p_id pr) (items s) = None"
      by (simp add: find_None_ids cart_ids_def)
    then show ?thesis
      by (simp add: addItem_def)
  qed
  from add rem upd clr present absent show ?thesis
    by blast
qed

theorem cart_distinct_ids_witness:
  "distinct (cart_ids cart2)
   \<and> distinct (cart_ids (addItem cable (Some 2) cart2))
   \<and> distinct (cart_ids (removeItem ''p1'' cart2))
   \<and> distinct (cart_ids (updateQuantity ''p1'' 7 cart2))
   \<and> distinct (cart_ids (clearCart cart2))
   \<and> length (items (addItem cable (Some 2) cart2)) = 2
   \<and> items (addItem cable (Some 2) cart2) ! 1 = \<lparr>product = cable, quantity = 6\<rparr>
   \<and> items (addItem phone None (removeItem ''p1'' cart2)) =
        [\<lparr>product = cable, quantity = 4\<rparr>, \<lparr>product = phone, quantity = 1\<rparr>]"
proof -
  have ids: "cart_ids cart2 = [''p1'', ''p2'']"
    by (simp add: cart_ids_def cart2_def phone_def cable_def)
  then have d: "distinct (cart_ids cart2)"
    by simp
  have its: "items cart2 = [\<lparr>product = phone, quantity = 1\<rparr>, \<lparr>product = cable, quantity = 4\<rparr>]"
    by (simp add: cart2_def)
  have pc: "p_id cable = ''p2''" "p_id phone = ''p1''"
    by (simp_all add: cable_def phone_def)
  have rem: "removeItem ''p1'' cart2 = \<lparr>items = [\<lparr>product = cable, quantity = 4\<rparr>], isOpen = False\<rparr>"
    by (simp add: removeItem_def cart2_def pc)
  have ids': "cart_ids (removeItem ''p1'' cart2) = [''p2'']"
    by (simp add: rem cart_ids_def pc)
  note a = cart_distinct_ids [where s = cart2 and pr = cable and qopt = "Some 2"
      and k = "''p1''" and q = 7, OF d]
  have d': "distinct (cart_ids (removeItem ''p1'' cart2))"
    using a by blast
  note b = cart_distinct_ids [where s = "removeItem ''p1'' cart2" and pr = phone and qopt = None
      and k = "''p1''" and q = 7, OF d']
  from a have "length (items (addItem cable (Some 2) cart2)) = 2
      \<and> items (addItem cable (Some 2) cart2) ! 1 = \<lparr>product = cable, quantity = 6\<rparr>"
    by (simp add: ids its pc)
  moreover from b have "items (addItem phone None (removeItem ''p1'' cart2)) =
        [\<lparr>product = cable, quantity = 4\<rparr>, \<lparr>product = phone, quantity = 1\<rparr>]"
    by (simp add: ids' pc rem)
  ultimately show ?thesis
    using a d by blast
qed



section \<open>Product store: proofs\<close>

lemma str_includes_sublist: "str_includes hay needle \<longleftrightarrow> sublist needle hay"
  by (induction hay) (simp_all add: sublist_Cons_right)








lemma array_at_spread: "array_at h0 (h0 ! r) (spread r h0)"
  by (simp add: array_at_def spread_def)

lemma array_at_filter:
  "array_at h0 xs rh \<Longrightarrow> array_at h0 (filter P xs) (array_filter P rh)"
  by (cases rh) (simp add: array_at_def array_filter_def)

lemma array_at_applyIf:
  "array_at h0 xs rh \<Longrightarrow>
     array_at h0 (if c then filter P xs else xs) (applyIf c (array_filter P) rh)"
  by (simp add: applyIf_def array_at_filter)

lemma array_at_sort:
  "array_at h0 xs rh \<Longrightarrow> array_at h0 (jsSort cmp xs) (array_sort cmp rh)"
  by (cases rh) (simp add: array_at_def array_sort_def)

lemma sort_case:
  "(case k of Name \<Rightarrow> array_sort (\<lambda>a b. localeCompare rt (p_name a) (p_name b)) rh
            | PriceLow \<Rightarrow> array_sort (\<lambda>a b. p_price a - p_price b) rh
            | PriceHigh \<Rightarrow> array_sort (\<lambda>a b. p_price b - p_price a) rh
            | Rating \<Rightarrow> array_sort (\<lambda>a b. p_rating b - p_rating a) rh
            | Newest \<Rightarrow> array_sort (newest_cmp rt) rh)
     = array_sort (comparator rt k) rh"
  by (cases k) simp_all

lemma getFilteredProducts_contents:
  "case getFilteredProducts rt s h0 of (r, s', h) \<Rightarrow>
     s' = s \<and> array_at h0 (jsSort (comparator rt (sortBy s)) (filter (passes s) (h0 ! products s))) (r, h)"
proof -
  let ?q = "searchQuery s" and ?fs = "filters s"
  let ?P1 = "\<lambda>p. str_includes (toLowerCase (p_name p)) (toLowerCase ?q)
                 \<or> str_includes (toLowerCase (p_description p)) (toLowerCase ?q)
                 \<or> str_includes (toLowerCase (p_brand p)) (toLowerCase ?q)"
  let ?P2 = "\<lambda>p. p_category p = f_category ?fs"
  let ?P3 = "\<lambda>p. fst (f_priceRange ?fs) \<le> p_price p \<and> p_price p \<le> snd (f_priceRange ?fs)"
  let ?P4 = "\<lambda>p. condition_label (p_condition p) \<in> set (f_condition ?fs)"
  let ?P5 = "\<lambda>p. p_brand p \<in> set (f_brand ?fs)"
  define x0 where "x0 = h0 ! products s"
  define x1 where "x1 = (if ?q \<noteq> [] then filter ?P1 x0 else x0)"
  define x2 where "x2 = (if f_category ?fs \<noteq> [] then filter ?P2 x1 else x1)"
  define x3 where "x3 = filter ?P3 x2"
  define x4 where "x4 = (if length (f_condition ?fs) > 0 then filter ?P4 x3 else x3)"
  define x5 where "x5 = (if length (f_brand ?fs) > 0 then filter ?P5 x4 else x4)"
  define x6 where "x6 = (if f_inStock ?fs then filter p_inStock x5 else x5)"
  define r0 where "r0 = spread (products s) h0"
  define r1 where "r1 = applyIf (?q \<noteq> []) (array_filter ?P1) r0"
  define r2 where "r2 = applyIf (f_category ?fs \<noteq> []) (array_filter ?P2) r1"
  define r3 where "r3 = array_filter ?P3 r2"
  define r4 where "r4 = applyIf (length (f_condition ?fs) > 0) (array_filter ?P4) r3"
  define r5 where "r5 = applyIf (length (f_brand ?fs) > 0) (array_filter ?P5) r4"
  define r6 where "r6 = applyIf (f_inStock ?fs) (array_filter p_inStock) r5"
  define r7 where "r7 = array_sort (comparator rt (sortBy s)) r6"
  have res: "getFilteredProducts rt s h0 = (fst r7, s, snd r7)"
    by (simp only: getFilteredProducts_def Let_def sort_case r7_def r6_def r5_def r4_def
          r3_def r2_def r1_def r0_def)
  have a0: "array_at h0 x0 r0"
    unfolding x0_def r0_def by (rule array_at_spread)
  have a1: "array_at h0 x1 r1"
    unfolding x1_def r1_def by (rule array_at_applyIf [OF a0])
  have a2: "array_at h0 x2 r2"
    unfolding x2_def r2_def by (rule array_at_applyIf [OF a1])
  have a3: "array_at h0 x3 r3"
    unfolding x3_def r3_def by (rule array_at_filter [OF a2])
  have a4: "array_at h0 x4 r4"
    unfolding x4_def r4_def by (rule array_at_applyIf [OF a3])
  have a5: "array_at h0 x5 r5"
    unfolding x5_def r5_def by (rule array_at_applyIf [OF a4])
  have a6: "array_at h0 x6 r6"
    unfolding x6_def r6_def by (rule array_at_applyIf [OF a5])
  have a7: "array_at h0 (jsSort (comparator rt (sortBy s)) x6) r7"
    unfolding r7_def by (rule array_at_sort [OF a6])
  have e1: "x1 = filter (\<lambda>p. ?q = [] \<or> ?P1 p) x0"
    unfolding x1_def by simp
  have e2: "x2 = filter (\<lambda>p. f_category ?fs = [] \<or> ?P2 p) x1"
    unfolding x2_def by simp
  have e4: "x4 = filter (\<lambda>p. f_condition ?fs = [] \<or> ?P4 p) x3"
    unfolding x4_def by simp
  have e5: "x5 = filter (\<lambda>p. f_brand ?fs = [] \<or> ?P5 p) x4"
    unfolding x5_def by simp
  have e6: "x6 = filter (\<lambda>p. f_inStock ?fs = False \<or> p_inStock p) x5"
    unfolding x6_def by simp
  have "x6 = filter (passes s) x0"
    unfolding e6 e5 e4 x3_def e2 e1 filter_filter
    by (rule filter_cong [OF refl])
       (simp add: passes_def contains_ci_def str_includes_sublist conj_ac)
  with a7 res show ?thesis
    by (simp add: x0_def)
qed









text \<open>
  C7. For every store state, \<open>getFilteredProducts\<close> returns the store as it was
  (\<open>products\<close>, \<open>categories\<close>, \<open>filters\<close>, \<open>sortBy\<close>, \<open>searchQuery\<close>), leaves every array that
  existed before the call as it was, in particular the contents and the order of the
  store's \<open>products\<close> array, and returns an array allocated during the call: the sort
  works on a copy.
\<close>

theorem getFilteredProducts_frame:
  assumes "products s < length h0"
  shows "case getFilteredProducts rt s h0 of (r, s', h) \<Rightarrow>
           s' = s
           \<and> h ! products s = h0 ! products s
           \<and> take (length h0) h = h0
           \<and> length h0 \<le> r \<and> r < length h"
proof -
  obtain r s' h where res: "getFilteredProducts rt s h0 = (r, s', h)"
    by (cases "getFilteredProducts rt s h0") auto
  with getFilteredProducts_contents [where rt = rt and s = s and ?h0.0 = h0]
  have s': "s' = s" and tk: "take (length h0) h = h0" and r: "length h0 \<le> r" "r < length h"
    by (simp_all add: array_at_def)
  have "h ! products s = take (length h0) h ! products s"
    using assms by simp
  with tk have "h ! products s = h0 ! products s"
    by simp
  with res s' tk r show ?thesis
    by simp
qed

theorem getFilteredProducts_frame_witness:
  "fst (snd (getFilteredProducts sample_rt sample_store sample_heap)) = sample_store
   \<and> snd (snd (getFilteredProducts sample_rt sample_store sample_heap)) ! 0 = [phone, cable]
   \<and> take 1 (snd (snd (getFilteredProducts sample_rt sample_store sample_heap))) = sample_heap
   \<and> 1 \<le> fst (getFilteredProducts sample_rt sample_store sample_heap)"
proof -
  have pre: "products sample_store < length sample_heap"
    by (simp add: sample_store_def sample_heap_def)
  have st: "sample_heap ! 0 = [phone, cable]" "products sample_store = 0"
    "length sample_heap = 1"
    by (simp_all add: sample_store_def sample_heap_def)
  from getFilteredProducts_frame [OF pre, where rt = sample_rt] show ?thesis
    by (simp add: split_beta st)
qed

section \<open>Order routes: proofs\<close>
















text \<open>
  C3. \<open>PUT /api/orders/:id/status\<close> accepts exactly the five labels pending, processing,
  shipped, delivered and cancelled. For any other status string it answers 400 with a
  validation failure and leaves the database as it was. For one of the five labels and
  an existing order it answers 200 and stores the order with \<open>status\<close> set to the label;
  for \<open>delivered\<close> it also sets \<open>isDelivered\<close> and puts the clock reading in \<open>deliveredAt\<close>,
  for the other labels it leaves both fields as they were.
\<close>

theorem order_status_setter:
  "status_labels = [''pending'', ''processing'', ''shipped'', ''delivered'', ''cancelled'']
   \<and> (s_status req \<notin> set status_labels \<longrightarrow>
        put_order_status now req d = (validation_failed [''Invalid status''], d))
   \<and> (s_status req \<in> set status_labels \<longrightarrow>
        r_status (fst (put_order_status now req d)) \<noteq> 400)
   \<and> (s_status req \<in> set status_labels \<and> Orders d (s_id req) = Some order \<longrightarrow>
        (\<exists>order'. put_order_status now req d =
             (ok 200 ''Order status updated successfully'' order',
              d\<lparr>Orders := (Orders d)(s_id req \<mapsto> order')\<rparr>)
           \<and> o_status order' = s_status req
           \<and> (s_status req = ''delivered'' \<longrightarrow>
                 o_isDelivered order' \<and> o_deliveredAt order' = Some now)
           \<and> (s_status req \<noteq> ''delivered'' \<longrightarrow>
                 o_isDelivered order' = o_isDelivered order
                 \<and> o_deliveredAt order' = o_deliveredAt order)))"
proof (intro conjI impI)
  show "status_labels = [''pending'', ''processing'', ''shipped'', ''delivered'', ''cancelled'']"
    by (simp add: status_labels_def)
next
  assume "s_status req \<notin> set status_labels"
  then show "put_order_status now req d = (validation_failed [''Invalid status''], d)"
    by (simp add: put_order_status_def check_def)
next
  assume "s_status req \<in> set status_labels"
  then show "r_status (fst (put_order_status now req d)) \<noteq> 400"
    by (simp add: put_order_status_def check_def Let_def failure_def ok_def
          split: option.splits)
next
  assume "s_status req \<in> set status_labels \<and> Orders d (s_id req) = Some order"
  then have lab: "s_status req \<in> set status_labels" and ord: "Orders d (s_id req) = Some order"
    by simp_all
  let ?tracked = "if s_trackingNumber req \<noteq> None \<and> s_trackingNumber req \<noteq> Some []
      then order\<lparr>o_status := s_status req, o_trackingNumber := s_trackingNumber req\<rparr>
      else order\<lparr>o_status := s_status req\<rparr>"
  let ?order' = "if s_status req = ''delivered''
      then ?tracked\<lparr>o_isDelivered := True, o_deliveredAt := Some now\<rparr> else ?tracked"
  have run: "put_order_status now req d =
      (ok 200 ''Order status updated successfully'' ?order',
       d\<lparr>Orders := (Orders d)(s_id req \<mapsto> ?order')\<rparr>)"
    using lab ord by (simp add: put_order_status_def check_def Let_def)
  have "o_status ?order' = s_status req"
    and "s_status req = ''delivered'' \<longrightarrow>
           o_isDelivered ?order' \<and> o_deliveredAt ?order' = Some now"
    and "s_status req \<noteq> ''delivered'' \<longrightarrow>
           o_isDelivered ?order' = o_isDelivered order
           \<and> o_deliveredAt ?order' = o_deliveredAt order"
    by simp_all
  with run show "\<exists>order'. put_order_status now req d =
             (ok 200 ''Order status updated successfully'' order',
              d\<lparr>Orders := (Orders d)(s_id req \<mapsto> order')\<rparr>)
           \<and> o_status order' = s_status req
           \<and> (s_status req = ''delivered'' \<longrightarrow>
                 o_isDelivered order' \<and> o_deliveredAt order' = Some now)
           \<and> (s_status req \<noteq> ''delivered'' \<longrightarrow>
                 o_isDelivered order' = o_isDelivered order
                 \<and> o_deliveredAt order' = o_deliveredAt order)"
    by (intro exI [of _ ?order']) (simp only: simp_thms)
qed

theorem order_status_setter_witness:
  "put_order_status 1700 \<lparr>s_id = sample_order_id, s_status = ''refunded'', s_trackingNumber = None\<rparr>
       order_db = (validation_failed [''Invalid status''], order_db)
   \<and> r_status (fst (put_order_status 1700
         \<lparr>s_id = sample_order_id, s_status = ''delivered'', s_trackingNumber = Some ''T1''\<rparr>
         order_db)) = 200
   \<and> map_option o_status (r_order (fst (put_order_status 1700
         \<lparr>s_id = sample_order_id, s_status = ''delivered'', s_trackingNumber = Some ''T1''\<rparr>
         order_db))) = Some ''delivered''
   \<and> map_option o_deliveredAt (r_order (fst (put_order_status 1700
         \<lparr>s_id = sample_order_id, s_status = ''delivered'', s_trackingNumber = Some ''T1''\<rparr>
         order_db))) = Some (Some 1700)
   \<and> map_option o_isDelivered (r_order (fst (put_order_status 1700
         \<lparr>s_id = sample_order_id, s_status = ''shipped'', s_trackingNumber = None\<rparr>
         order_db))) = Some False"
proof -
  let ?bad = "\<lparr>s_id = sample_order_id, s_status = ''refunded'', s_trackingNumber = None\<rparr>"
  let ?del = "\<lparr>s_id = sample_order_id, s_status = ''delivered'', s_trackingNumber = Some ''T1''\<rparr>"
  let ?shp = "\<lparr>s_id = sample_order_id, s_status = ''shipped'', s_trackingNumber = None\<rparr>"
  have ord: "Orders order_db sample_order_id = Some sample_order"
    by (simp add: order_db_def)
  have fld: "o_isDelivered sample_order = False"
    by (simp add: sample_order_def blank_order_def)
  note a = order_status_setter [of ?bad 1700 order_db sample_order]
  note b = order_status_setter [of ?del 1700 order_db sample_order]
  note c = order_status_setter [of ?shp 1700 order_db sample_order]
  from a have labels: "status_labels = [''pending'', ''processing'', ''shipped'', ''delivered'', ''cancelled'']"
    by blast
  from a have "put_order_status 1700 ?bad order_db = (validation_failed [''Invalid status''], order_db)"
    by (simp add: labels)
  moreover from b ord have "r_status (fst (put_order_status 1700 ?del order_db)) = 200
      \<and> map_option o_status (r_order (fst (put_order_status 1700 ?del order_db))) = Some ''delivered''
      \<and> map_option o_deliveredAt (r_order (fst (put_order_status 1700 ?del order_db))) = Some (Some 1700)"
    by (auto simp: labels ok_def)
  moreover from c ord fld have "map_option o_isDelivered (r_order (fst (put_order_status 1700 ?shp order_db))) = Some False"
    by (auto simp: labels ok_def)
  ultimately show ?thesis
    by blast
qed

section \<open>Payment routes: proofs\<close>











end
